theory Spec2Isabelle
  imports Main "HOL-Library.Multiset" "HOL-Library.List_Lexorder" "HOL-Library.Char_ord"
begin

section \<open>JavaScript values used by the dashboard\<close>

text \<open>
  Strings are lists of code units; the model covers code units below 256, where
  \<open>toLowerCase\<close> keeps the length and \<open>trim\<close> removes tab, line feed, vertical tab,
  form feed, carriage return, space and no-break space.  Instants are milliseconds since
  the epoch, as \<open>Date.now()\<close> and \<open>getTime()\<close> give them; counters are integers.
  An optional string property is a \<open>string option\<close> (\<open>None\<close> is \<open>undefined\<close>).
\<close>

definition truthy :: "string option \<Rightarrow> bool" where
  "truthy v = (case v of None \<Rightarrow> False | Some s \<Rightarrow> s \<noteq> [])"

text \<open>\<open>a || b\<close> on optional strings, and \<open>a || 'literal'\<close> with a literal at the end of the chain.\<close>

definition or_else :: "string option \<Rightarrow> string option \<Rightarrow> string option" where
  "or_else a b = (if truthy a then a else b)"

definition or_default :: "string option \<Rightarrow> string \<Rightarrow> string" where
  "or_default a d = (case a of None \<Rightarrow> d | Some s \<Rightarrow> if s = [] then d else s)"

definition toLowerCase_char :: "char \<Rightarrow> char" where
  "toLowerCase_char c =
     (let n = (of_char c :: nat)
      in if (65 \<le> n \<and> n \<le> 90) \<or> (192 \<le> n \<and> n \<le> 222 \<and> n \<noteq> 215)
         then char_of (n + 32) else c)"

definition toLowerCase :: "string \<Rightarrow> string" where
  "toLowerCase s = map toLowerCase_char s"

definition isWhiteSpace :: "char \<Rightarrow> bool" where
  "isWhiteSpace c = ((of_char c :: nat) \<in> {9, 10, 11, 12, 13, 32, 160})"

definition trim :: "string \<Rightarrow> string" where
  "trim s = rev (dropWhile isWhiteSpace (rev (dropWhile isWhiteSpace s)))"

text \<open>Decimal rendering of a non-negative integer inside a template literal.\<close>

fun string_of_nat :: "nat \<Rightarrow> string" where
  "string_of_nat n =
     (if n < 10 then [char_of (48 + n)]
      else string_of_nat (n div 10) @ [char_of (48 + n mod 10)])"

declare string_of_nat.simps [simp del]

text \<open>\<open>Array.prototype.join\<close>.\<close>

fun join :: "string \<Rightarrow> string list \<Rightarrow> string" where
  "join sep [] = []"
| "join sep [x] = x"
| "join sep (x # y # ys) = x @ sep @ join sep (y # ys)"


section \<open>Expiring cache (\<open>OptimizedChatService.cache\<close>)\<close>

record 'v CachedData =
  data :: 'v
  timestamp :: int
  expiresAt :: int

type_synonym 'v cache = "string \<rightharpoonup> 'v CachedData"

definition CACHE_DURATION :: int where "CACHE_DURATION = 30000"
definition DEBOUNCE_DELAY :: nat where "DEBOUNCE_DELAY = 1000"
definition DEFAULT_CONVERSATION_LIMIT :: nat where "DEFAULT_CONVERSATION_LIMIT = 25"
definition DEFAULT_MESSAGE_LIMIT :: nat where "DEFAULT_MESSAGE_LIMIT = 50"
definition MAX_PRESENCE_USERS :: nat where "MAX_PRESENCE_USERS = 20"

text \<open>
  \<open>getCachedData\<close> reads the clock (\<open>now\<close>) and returns the stored value or \<open>null\<close>
  (\<open>None\<close>), together with the cache, from which an entry found expired has been deleted.
\<close>

definition getCachedData :: "int \<Rightarrow> string \<Rightarrow> 'v cache \<Rightarrow> 'v option \<times> 'v cache" where
  "getCachedData now key c =
     (case c key of
        None \<Rightarrow> (None, c)
      | Some cached \<Rightarrow>
          if now > expiresAt cached then (None, c(key := None))
          else (Some (data cached), c))"

definition setCachedData :: "int \<Rightarrow> string \<Rightarrow> 'v \<Rightarrow> int \<Rightarrow> 'v cache \<Rightarrow> 'v cache" where
  "setCachedData now key d duration c =
     c(key \<mapsto> \<lparr>data = d, timestamp = now, expiresAt = now + duration\<rparr>)"


section \<open>Usage meter (\<open>OptimizedChatService.usageStats\<close>)\<close>

record FirebaseUsageStats =
  reads :: int
  writes :: int
  lastReset :: int

text \<open>
  \<open>getUsageStats\<close> stores the statistics it returns, so the model gives one value for both.
  \<open>hoursSinceReset >= 24\<close> divides the elapsed milliseconds by \<open>1000 * 60 * 60\<close>; the
  comparison is written on the milliseconds.
\<close>

definition getUsageStats :: "int \<Rightarrow> FirebaseUsageStats \<Rightarrow> FirebaseUsageStats" where
  "getUsageStats now u =
     (if now - lastReset u \<ge> 24 * (1000 * 60 * 60)
      then \<lparr>reads = 0, writes = 0, lastReset = now\<rparr>
      else u)"

definition incrementReads :: "int \<Rightarrow> FirebaseUsageStats \<Rightarrow> FirebaseUsageStats" where
  "incrementReads n u = u\<lparr>reads := reads u + n\<rparr>"

definition incrementWrites :: "int \<Rightarrow> FirebaseUsageStats \<Rightarrow> FirebaseUsageStats" where
  "incrementWrites n u = u\<lparr>writes := writes u + n\<rparr>"

datatype console_warning = ReadLimitExceeded | ApproachingReadLimit

definition maxReadsPerDay :: int where "maxReadsPerDay = 500"

text \<open>
  \<open>checkRateLimit\<close> returns its verdict, the warnings it prints, and the statistics left
  in the service.  \<open>stats.reads > maxReadsPerDay * 0.8\<close> is written without the fraction.
\<close>

definition checkRateLimit ::
  "int \<Rightarrow> FirebaseUsageStats \<Rightarrow> bool \<times> console_warning list \<times> FirebaseUsageStats" where
  "checkRateLimit now u =
     (let stats = getUsageStats now u
      in if reads stats > maxReadsPerDay then (False, [ReadLimitExceeded], stats)
         else if 10 * reads stats > 8 * maxReadsPerDay then (True, [ApproachingReadLimit], stats)
         else (True, [], stats))"


section \<open>Subscription coalescer (\<open>setupDebouncedListener\<close>)\<close>

text \<open>
  The service keeps two maps, \<open>debounceTimers\<close> and \<open>activeListeners\<close>.  What they refer
  to lives in the JavaScript run time and in the store's client: the timeouts that have
  been scheduled and have neither run nor been cleared, and the snapshot listeners that
  have been registered and not unsubscribed.  The model keeps both, so that what the maps
  say and what really exists can be compared.  A timeout carries the key and the factory
  its closure captured and the time it is due; a listener carries the key it was stored
  under, the factory that made it and the timeout that ran the factory.  Identifiers of
  timeouts and listeners are drawn from one counter that starts at 1, so every identifier
  is truthy.  \<open>invocations\<close> logs each call of a factory.
\<close>

record 'f Timeout =
  timer :: nat
  t_key :: string
  listenerFn :: 'f
  due :: int

record 'f Listener =
  handle :: nat
  l_key :: string
  factory :: 'f
  armed_by :: nat

record 'f coalescer =
  debounceTimers :: "string \<rightharpoonup> nat"
  activeListeners :: "string \<rightharpoonup> nat"
  timeouts :: "'f Timeout list"
  listeners :: "'f Listener list"
  invocations :: "(nat \<times> 'f) list"
  fresh :: nat
  clock :: int

definition clearTimeout :: "nat \<Rightarrow> ('f, 'z) coalescer_scheme \<Rightarrow> ('f, 'z) coalescer_scheme" where
  "clearTimeout t s = s\<lparr>timeouts := filter (\<lambda>x. timer x \<noteq> t) (timeouts s)\<rparr>"

definition unsubscribe :: "nat \<Rightarrow> ('f, 'z) coalescer_scheme \<Rightarrow> ('f, 'z) coalescer_scheme" where
  "unsubscribe h s = s\<lparr>listeners := filter (\<lambda>l. handle l \<noteq> h) (listeners s)\<rparr>"

definition setupDebouncedListener ::
  "string \<Rightarrow> 'f \<Rightarrow> nat \<Rightarrow> ('f, 'z) coalescer_scheme \<Rightarrow> ('f, 'z) coalescer_scheme" where
  "setupDebouncedListener key fn delay s =
     (let s1 = (case debounceTimers s key of Some existingTimer \<Rightarrow> clearTimeout existingTimer s | None \<Rightarrow> s);
          s2 = (case activeListeners s1 key of Some existingListener \<Rightarrow> unsubscribe existingListener s1 | None \<Rightarrow> s1);
          t = fresh s2
      in s2\<lparr>timeouts := timeouts s2 @ [\<lparr>timer = t, t_key = key, listenerFn = fn, due = clock s2 + int delay\<rparr>],
            fresh := Suc t,
            debounceTimers := (debounceTimers s2)(key \<mapsto> t)\<rparr>)"

definition runTimeout :: "nat \<Rightarrow> ('f, 'z) coalescer_scheme \<Rightarrow> ('f, 'z) coalescer_scheme" where
  "runTimeout t s =
     (case find (\<lambda>x. timer x = t) (timeouts s) of
        None \<Rightarrow> s
      | Some x \<Rightarrow>
          if clock s < due x then s
          else let s1 = clearTimeout t s; h = fresh s1
               in s1\<lparr>listeners := listeners s1 @ [\<lparr>handle = h, l_key = t_key x, factory = listenerFn x, armed_by = t\<rparr>],
                     invocations := invocations s1 @ [(t, listenerFn x)],
                     fresh := Suc h,
                     activeListeners := (activeListeners s1)(t_key x \<mapsto> h),
                     debounceTimers := (debounceTimers s1)(t_key x := None)\<rparr>)"

definition cancelListener :: "string \<Rightarrow> ('f, 'z) coalescer_scheme \<Rightarrow> ('f, 'z) coalescer_scheme" where
  "cancelListener key s =
     (let s1 = (case debounceTimers s key of
                  Some t \<Rightarrow> (clearTimeout t s)\<lparr>debounceTimers := (debounceTimers s)(key := None)\<rparr>
                | None \<Rightarrow> s)
      in case activeListeners s1 key of
           Some h \<Rightarrow> (unsubscribe h s1)\<lparr>activeListeners := (activeListeners s1)(key := None)\<rparr>
         | None \<Rightarrow> s1)"

text \<open>
  What \<open>cleanup()\<close> does to timers and listeners: every registered timeout is cleared,
  every registered listener unsubscribed, both maps emptied.  (\<open>cleanup_service\<close> below
  adds the cache.)
\<close>

definition cleanup :: "('f, 'z) coalescer_scheme \<Rightarrow> ('f, 'z) coalescer_scheme" where
  "cleanup s =
     s\<lparr>timeouts := filter (\<lambda>x. timer x \<notin> ran (debounceTimers s)) (timeouts s),
       debounceTimers := Map.empty,
       listeners := filter (\<lambda>l. handle l \<notin> ran (activeListeners s)) (listeners s),
       activeListeners := Map.empty\<rparr>"

text \<open>
  What can happen to the coalescer: \<open>setupDebouncedListener\<close> is called; the function
  that a subscribe method returned is called for its key; \<open>cleanup\<close> is called; time
  passes; the run time runs a timeout, which it does only once the delay has passed and
  only if the timeout has not been cleared.
\<close>

datatype 'f event = Ensure string 'f nat | Cancel string | Cleanup | Elapse nat | Expire nat

fun step :: "'f event \<Rightarrow> ('f, 'z) coalescer_scheme \<Rightarrow> ('f, 'z) coalescer_scheme" where
  "step (Ensure key fn delay) s = setupDebouncedListener key fn delay s"
| "step (Cancel key) s = cancelListener key s"
| "step Cleanup s = cleanup s"
| "step (Elapse d) s = s\<lparr>clock := clock s + int d\<rparr>"
| "step (Expire t) s = runTimeout t s"

definition run :: "'f event list \<Rightarrow> ('f, 'z) coalescer_scheme \<Rightarrow> ('f, 'z) coalescer_scheme" where
  "run es s = fold step es s"

fun elapsed :: "'f event list \<Rightarrow> int" where
  "elapsed [] = 0"
| "elapsed (Elapse d # es) = int d + elapsed es"
| "elapsed (e # es) = elapsed es"

definition init :: "int \<Rightarrow> 'f coalescer" where
  "init now = \<lparr>debounceTimers = Map.empty, activeListeners = Map.empty, timeouts = [],
     listeners = [], invocations = [], fresh = 1, clock = now\<rparr>"

text \<open>
  For stating properties: the timeouts scheduled and the listeners live for a key; the
  invariant \<open>coalesced\<close> that ties what exists to the two maps; \<open>waiting t d k\<close>, a timeout
  \<open>t\<close> whose factory has not run and which, while scheduled, is due at \<open>d\<close> under key
  \<open>k\<close>; and \<open>dead t\<close>, a timeout that is no longer scheduled and whose factory has not
  run.
\<close>

definition pending_for :: "string \<Rightarrow> ('f, 'z) coalescer_scheme \<Rightarrow> 'f Timeout list" where
  "pending_for key s = filter (\<lambda>x. t_key x = key) (timeouts s)"

definition live_for :: "string \<Rightarrow> ('f, 'z) coalescer_scheme \<Rightarrow> 'f Listener list" where
  "live_for key s = filter (\<lambda>l. l_key l = key) (listeners s)"

definition coalesced :: "('f, 'z) coalescer_scheme \<Rightarrow> bool" where
  "coalesced s \<longleftrightarrow>
     distinct (map timer (timeouts s)) \<and>
     (\<forall>x \<in> set (timeouts s). debounceTimers s (t_key x) = Some (timer x) \<and> timer x < fresh s) \<and>
     distinct (map handle (listeners s)) \<and>
     (\<forall>l \<in> set (listeners s). activeListeners s (l_key l) = Some (handle l) \<and> handle l < fresh s) \<and>
     (\<forall>x \<in> set (timeouts s). \<forall>l \<in> set (listeners s). t_key x \<noteq> l_key l) \<and>
     (\<forall>p \<in> set (invocations s). fst p < fresh s)"

definition waiting :: "nat \<Rightarrow> int \<Rightarrow> string \<Rightarrow> ('f, 'z) coalescer_scheme \<Rightarrow> bool" where
  "waiting t d k s \<longleftrightarrow>
     t \<notin> fst ` set (invocations s) \<and> t < fresh s \<and>
     (\<forall>x \<in> set (timeouts s). timer x = t \<longrightarrow> due x = d \<and> t_key x = k)"

definition dead :: "nat \<Rightarrow> ('f, 'z) coalescer_scheme \<Rightarrow> bool" where
  "dead t s \<longleftrightarrow>
     t \<notin> timer ` set (timeouts s) \<and> t \<notin> fst ` set (invocations s) \<and> t < fresh s"


section \<open>The service state: coalescer, cache and usage meter together\<close>

record ('f, 'v) service = "'f coalescer" +
  cache :: "'v cache"
  usageStats :: FirebaseUsageStats

definition cleanup_service :: "('f, 'v) service \<Rightarrow> ('f, 'v) service" where
  "cleanup_service s = (cleanup s)\<lparr>cache := Map.empty\<rparr>"

definition new_service :: "int \<Rightarrow> ('f, 'v) service" where
  "new_service now =
     \<lparr>debounceTimers = Map.empty, activeListeners = Map.empty, timeouts = [], listeners = [],
      invocations = [], fresh = 1, clock = now,
      cache = Map.empty, usageStats = \<lparr>reads = 0, writes = 0, lastReset = now\<rparr>\<rparr>"


section \<open>Sending a message\<close>

text \<open>
  The remote store is outside the repository; the model keeps what \<open>sendMessage\<close>
  touches: the documents of \<open>chat_messages\<close>, the three fields of a conversation document
  that the batch updates, and whether the store can be reached.  A batch is atomic: it
  fails as a whole when the store is unreachable or when an update names a document that
  does not exist.  The client clock and the server clock are taken to agree.
\<close>

datatype SenderType = Operator | Customer
datatype MessageType = TextMessage | ImageMessage | FileMessage | VoiceMessage

record ChatMessage =
  cm_id :: string
  conversationId :: string
  senderId :: string
  senderType :: SenderType
  content :: string
  messageType :: MessageType
  cm_timestamp :: int
  cm_status :: string
  reactions :: "string list"
  attachments :: "string list"

record ConversationDoc =
  lastMessageAt :: int
  updatedAt :: int
  unreadCount :: int

record firestore =
  chat_messages :: "ChatMessage list"
  conversations :: "string \<rightharpoonup> ConversationDoc"
  reachable :: bool

datatype firestore_error = Unavailable | NotFound

datatype write_op =
    SetMessage ChatMessage
  | UpdateConversation string SenderType int

fun apply_write :: "write_op \<Rightarrow> firestore \<Rightarrow> firestore_error + firestore" where
  "apply_write (SetMessage m) db = Inr (db\<lparr>chat_messages := chat_messages db @ [m]\<rparr>)"
| "apply_write (UpdateConversation cid st now) db =
     (case conversations db cid of
        None \<Rightarrow> Inl NotFound
      | Some c \<Rightarrow>
          Inr (db\<lparr>conversations := (conversations db)(cid \<mapsto>
                 c\<lparr>lastMessageAt := now, updatedAt := now,
                   unreadCount := (if st = Customer then unreadCount c + 1 else 0)\<rparr>)\<rparr>))"

fun apply_writes :: "write_op list \<Rightarrow> firestore \<Rightarrow> firestore_error + firestore" where
  "apply_writes [] db = Inr db"
| "apply_writes (w # ws) db =
     (case apply_write w db of Inl e \<Rightarrow> Inl e | Inr db' \<Rightarrow> apply_writes ws db')"

definition batch_commit :: "write_op list \<Rightarrow> firestore \<Rightarrow> firestore_error + firestore" where
  "batch_commit ws db = (if reachable db then apply_writes ws db else Inl Unavailable)"

text \<open>The cache key of \<open>subscribeToMessages\<close>: \<open>messages_${conversationId}_${limitCount}\<close>.\<close>

definition messagesCacheKey :: "string \<Rightarrow> nat \<Rightarrow> string" where
  "messagesCacheKey cid limitCount = ''messages_'' @ cid @ ''_'' @ string_of_nat limitCount"

text \<open>
  \<open>OptimizedChatService.sendMessage\<close>; \<open>newId\<close> is the identifier the store's client
  generates for the new message document.  A rejected commit is the \<open>Inl\<close> result, and
  then nothing after \<open>await batch.commit()\<close> has run.
\<close>

definition sendMessage ::
  "string \<Rightarrow> string \<Rightarrow> SenderType \<Rightarrow> string \<Rightarrow> MessageType \<Rightarrow> string \<Rightarrow>
   firestore \<Rightarrow> ('f, 'v) service \<Rightarrow> firestore_error + (ChatMessage \<times> firestore \<times> ('f, 'v) service)" where
  "sendMessage cid sid st body mt newId db s =
     (let message = \<lparr>cm_id = newId, conversationId = cid, senderId = sid, senderType = st,
                      content = body, messageType = mt, cm_timestamp = clock s,
                      cm_status = ''sent'', reactions = [], attachments = []\<rparr>
      in case batch_commit [SetMessage message, UpdateConversation cid st (clock s)] db of
           Inl e \<Rightarrow> Inl e
         | Inr db' \<Rightarrow>
             Inr (message, db',
                  s\<lparr>usageStats := incrementWrites 2 (usageStats s),
                    cache := (cache s)(messagesCacheKey cid DEFAULT_MESSAGE_LIMIT := None)\<rparr>))"

text \<open>
  The \<open>sendMessage\<close> of the hook \<open>useOptimizedChatService\<close>: it returns at once without
  a signed-in user or with content that trims to nothing, and otherwise calls the service
  and refreshes the usage statistics it shows.
\<close>

datatype send_outcome = Skipped | Sent ChatMessage | Failed firestore_error

definition hook_sendMessage ::
  "string option \<Rightarrow> string \<Rightarrow> string \<Rightarrow> string \<Rightarrow> firestore \<Rightarrow> ('f, 'v) service \<Rightarrow>
   send_outcome \<times> firestore \<times> ('f, 'v) service" where
  "hook_sendMessage currentUser cid body newId db s =
     (case currentUser of
        None \<Rightarrow> (Skipped, db, s)
      | Some uid \<Rightarrow>
          if trim body = [] then (Skipped, db, s)
          else (case sendMessage cid uid Operator (trim body) TextMessage newId db s of
                  Inl e \<Rightarrow> (Failed e, db, s)
                | Inr (m, db', s') \<Rightarrow>
                    (Sent m, db', s'\<lparr>usageStats := getUsageStats (clock s') (usageStats s')\<rparr>)))"


section \<open>Presence subscriptions\<close>

record UserPresence =
  userId :: string
  status :: string
  lastSeen :: int
  isTyping :: bool
  typingInConversation :: "string option"

text \<open>A document of the \<open>user_presence\<close> collection, with its optional fields.\<close>

record PresenceDoc =
  p_userId :: string
  p_status :: string
  p_lastSeen :: "int option"
  p_isTyping :: "bool option"
  p_typingInConversation :: "string option"

type_synonym presence_map = "string \<rightharpoonup> UserPresence"

text \<open>
  The closure that \<open>subscribeToPresence\<close> hands to \<open>setupDebouncedListener\<close>: it holds the
  identifiers of the query, the cache key and the caller's callback.
\<close>

datatype 'c presence_listener = PresenceListener "string list" string 'c

datatype unsubscribe_fn = NoOp | Unsubscribe string

definition presenceCacheKey :: "string list \<Rightarrow> string" where
  "presenceCacheKey ids = ''presence_'' @ join ''_'' ids"

text \<open>
  \<open>subscribeToPresence\<close> returns the unsubscribe function, the calls it makes to the
  callback (callback and presence map), and the service.  \<open>sort()\<close> without a comparator
  orders strings by code units.
\<close>

definition subscribeToPresence ::
  "string list \<Rightarrow> 'c \<Rightarrow> ('c presence_listener, presence_map) service \<Rightarrow>
   unsubscribe_fn \<times> ('c \<times> presence_map) list \<times> ('c presence_listener, presence_map) service" where
  "subscribeToPresence userIds callback s =
     (let limitedUserIds = sort (take MAX_PRESENCE_USERS userIds);
          cacheKey = presenceCacheKey limitedUserIds;
          listenerKey = ''presence_listener_'' @ cacheKey
      in if length limitedUserIds = 0 then (NoOp, [(callback, Map.empty)], s)
         else
           let (cached, c') = getCachedData (clock s) cacheKey (cache s);
               s1 = s\<lparr>cache := c'\<rparr>;
               calls = (case cached of Some m \<Rightarrow> [(callback, m)] | None \<Rightarrow> []);
               s2 = setupDebouncedListener listenerKey
                      (PresenceListener limitedUserIds cacheKey callback) DEBOUNCE_DELAY s1
           in (Unsubscribe listenerKey, calls, s2))"

definition call_unsubscribe ::
  "unsubscribe_fn \<Rightarrow> ('f, 'z) coalescer_scheme \<Rightarrow> ('f, 'z) coalescer_scheme" where
  "call_unsubscribe u s = (case u of NoOp \<Rightarrow> s | Unsubscribe key \<Rightarrow> cancelListener key s)"

definition toUserPresence :: "int \<Rightarrow> PresenceDoc \<Rightarrow> UserPresence" where
  "toUserPresence now d =
     \<lparr>userId = p_userId d, status = p_status d,
      lastSeen = (case p_lastSeen d of Some t \<Rightarrow> t | None \<Rightarrow> now),
      isTyping = (case p_isTyping d of Some b \<Rightarrow> b | None \<Rightarrow> False),
      typingInConversation = p_typingInConversation d\<rparr>"

text \<open>
  A snapshot delivered to the listener with handle \<open>h\<close>, when the collection holds
  \<open>collection\<close>: the query keeps the documents whose \<open>userId\<close> is among the identifiers of
  the listener; the handler counts the reads, builds the map, caches it and calls back.
  A listener that has been unsubscribed receives nothing.
\<close>

definition presenceSnapshot ::
  "nat \<Rightarrow> PresenceDoc list \<Rightarrow> ('c presence_listener, presence_map) service \<Rightarrow>
   ('c \<times> presence_map) list \<times> ('c presence_listener, presence_map) service" where
  "presenceSnapshot h collection s =
     (case find (\<lambda>l. handle l = h) (listeners s) of
        None \<Rightarrow> ([], s)
      | Some l \<Rightarrow>
          (case factory l of
             PresenceListener ids cacheKey callback \<Rightarrow>
               let docs = filter (\<lambda>d. p_userId d \<in> set ids) collection;
                   s1 = s\<lparr>usageStats := incrementReads (int (length docs)) (usageStats s)\<rparr>;
                   presenceMap = fold (\<lambda>d m. m(p_userId d \<mapsto> toUserPresence (clock s1) d)) docs Map.empty;
                   s2 = s1\<lparr>cache := setCachedData (clock s1) cacheKey presenceMap CACHE_DURATION (cache s1)\<rparr>
               in ([(callback, presenceMap)], s2)))"


section \<open>Data sources: normalising and aggregating messages\<close>

datatype DataSource = WEBHOOK | FIREBASE | GOOGLE_SHEETS

datatype Sender = SenderOperator | SenderCustomer
datatype Direction = Inbound | Outbound

text \<open>
  A JavaScript \<open>Date\<close> is an instant in milliseconds or \<open>Invalid Date\<close>.  \<open>new Date(ms)\<close>
  is invalid beyond 8.64e15 milliseconds on either side of the epoch; \<open>getTime()\<close> of an
  invalid date is \<open>NaN\<close>, here \<open>None\<close>.
\<close>

datatype JSDate = Instant int | InvalidDate

definition new_Date_ms :: "int \<Rightarrow> JSDate" where
  "new_Date_ms ms =
     (if - 8640000000000000 \<le> ms \<and> ms \<le> 8640000000000000 then Instant ms else InvalidDate)"

definition getTime :: "JSDate \<Rightarrow> int option" where
  "getTime d = (case d of Instant ms \<Rightarrow> Some ms | InvalidDate \<Rightarrow> None)"

record UnifiedMessage =
  um_id :: string
  phone_number :: string
  name :: string
  product :: string
  category :: string
  intent :: string
  message :: string
  um_timestamp :: JSDate
  source :: DataSource
  sender :: Sender
  direction :: Direction
  um_type :: string

text \<open>
  Raw records are untyped objects.  The model describes one by the two ways the code
  reads its properties: \<open>str\<close> for the properties read as strings, and \<open>stamp\<close> for the
  properties read as times, which may hold a string, a number, a Firestore timestamp
  (seconds and milliseconds within the second; it has \<open>toDate\<close> and \<open>seconds\<close>) or a plain
  object with a numeric \<open>seconds\<close> property.
\<close>

datatype js_value =
    JString string
  | JNumber int
  | JTimestamp int int
  | JSeconds int

record RawDoc =
  str :: "string \<rightharpoonup> string"
  stamp :: "string \<rightharpoonup> js_value"

definition js_truthy :: "js_value option \<Rightarrow> bool" where
  "js_truthy v =
     (case v of
        None \<Rightarrow> False
      | Some (JString s) \<Rightarrow> s \<noteq> []
      | Some (JNumber n) \<Rightarrow> n \<noteq> 0
      | Some _ \<Rightarrow> True)"

text \<open>
  \<open>new Date(v)\<close>.  How a string is read as a date is the run time's business: \<open>parse\<close>
  is its \<open>Date.parse\<close>, with \<open>None\<close> for a string it cannot read.  An object handed to
  \<open>new Date\<close> is not a date.
\<close>

definition new_Date :: "(string \<Rightarrow> int option) \<Rightarrow> js_value \<Rightarrow> JSDate" where
  "new_Date parse v =
     (case v of
        JString s \<Rightarrow> (case parse s of Some ms \<Rightarrow> new_Date_ms ms | None \<Rightarrow> InvalidDate)
      | JNumber n \<Rightarrow> new_Date_ms n
      | _ \<Rightarrow> InvalidDate)"

text \<open>
  The tests of the timestamp chain, each with the date its branch assigns:
  \<open>x?.toDate\<close> then \<open>x.toDate()\<close>; \<open>x?.seconds\<close> then \<open>new Date(x.seconds * 1000)\<close>;
  \<open>typeof x === 'string'\<close> then \<open>new Date(x)\<close>; \<open>x\<close> truthy then \<open>new Date(x)\<close>.
\<close>

definition via_toDate :: "js_value option \<Rightarrow> JSDate option" where
  "via_toDate v =
     (case v of Some (JTimestamp secs ms) \<Rightarrow> Some (new_Date_ms (secs * 1000 + ms)) | _ \<Rightarrow> None)"

definition via_seconds :: "js_value option \<Rightarrow> JSDate option" where
  "via_seconds v =
     (case v of
        Some (JTimestamp secs ms) \<Rightarrow> if secs \<noteq> 0 then Some (new_Date_ms (secs * 1000)) else None
      | Some (JSeconds secs) \<Rightarrow> if secs \<noteq> 0 then Some (new_Date_ms (secs * 1000)) else None
      | _ \<Rightarrow> None)"

definition via_string :: "(string \<Rightarrow> int option) \<Rightarrow> js_value option \<Rightarrow> JSDate option" where
  "via_string parse v = (case v of Some (JString s) \<Rightarrow> Some (new_Date parse (JString s)) | _ \<Rightarrow> None)"

definition via_truthy :: "(string \<Rightarrow> int option) \<Rightarrow> js_value option \<Rightarrow> JSDate option" where
  "via_truthy parse v =
     (case v of None \<Rightarrow> None | Some x \<Rightarrow> if js_truthy v then Some (new_Date parse x) else None)"

fun first_some :: "JSDate option list \<Rightarrow> JSDate \<Rightarrow> JSDate" where
  "first_some [] d = d"
| "first_some (Some t # _) d = t"
| "first_some (None # rest) d = first_some rest d"

definition firebaseTimestamp :: "(string \<Rightarrow> int option) \<Rightarrow> int \<Rightarrow> RawDoc \<Rightarrow> JSDate" where
  "firebaseTimestamp parse now doc =
     first_some
       [via_toDate (stamp doc ''ReceivedAt''),
        via_seconds (stamp doc ''ReceivedAt''),
        via_string parse (stamp doc ''ReceivedAt''),
        via_toDate (stamp doc ''Time''),
        via_seconds (stamp doc ''Time''),
        via_string parse (stamp doc ''Time''),
        via_seconds (stamp doc ''time''),
        via_toDate (stamp doc ''timestamp''),
        via_toDate (stamp doc ''createdAt''),
        via_truthy parse (stamp doc ''updatedAt'')]
       (Instant now)"

text \<open>The body of the \<open>map\<close> callback of \<open>getFirebaseMessages\<close>.\<close>

definition firebaseToUnified ::
  "(string \<Rightarrow> int option) \<Rightarrow> int \<Rightarrow> nat \<Rightarrow> RawDoc \<Rightarrow> UnifiedMessage" where
  "firebaseToUnified parse now index doc =
     (let senderValue = or_default (or_else (str doc ''Sender'') (str doc ''sender'')) ''Customer'';
          sender = (if toLowerCase senderValue = ''operator'' then SenderOperator else SenderCustomer)
      in \<lparr>um_id = or_default (str doc ''id'')
                   (''firebase-'' @ string_of_nat (nat now) @ ''-'' @ string_of_nat index),
          phone_number = or_default (or_else (str doc ''Phone Number'')
                           (or_else (str doc ''phone_number'') (str doc ''Phone_number''))) ''N/A'',
          name = or_default (or_else (str doc ''Profile Name'')
                   (or_else (str doc ''name'') (or_else (str doc ''Name'')
                     (or_else (str doc ''customer_name'') (str doc ''Customer_name'')))))
                   ''Unknown Customer'',
          product = or_default (or_else (str doc ''product'') (str doc ''Product''))
                      ''No product specified'',
          category = or_default (or_else (str doc ''category'') (str doc ''Category'')) ''Enquiry'',
          intent = or_default (or_else (str doc ''intent'') (str doc ''Intent'')) ''General'',
          message = or_default (or_else (str doc ''Message'')
                      (or_else (str doc ''message'') (or_else (str doc ''Message_body'')
                        (str doc ''message_body'')))) ''No message content'',
          um_timestamp = firebaseTimestamp parse now doc,
          source = FIREBASE,
          sender = sender,
          direction = (if sender = SenderOperator then Outbound else Inbound),
          um_type = or_default (or_else (str doc ''Type'') (str doc ''type'')) ''text''\<rparr>)"











text \<open>
  The comparator of \<open>getAllMessages\<close> is \<open>b.getTime() - a.getTime()\<close>, and a comparator
  result of \<open>NaN\<close> counts as 0.  \<open>comes_first a b\<close> says that the comparator does not put
  \<open>a\<close> after \<open>b\<close>.  \<open>Array.prototype.sort\<close> is stable; while every instant is valid the
  comparator is consistent and every stable sort gives the same array.  With an invalid
  date the comparator is not consistent and the order is left to the implementation; the
  model then fixes one stable algorithm, insertion from the right.
\<close>

definition comes_first :: "UnifiedMessage \<Rightarrow> UnifiedMessage \<Rightarrow> bool" where
  "comes_first a b =
     (case (getTime (um_timestamp b), getTime (um_timestamp a)) of
        (Some tb, Some ta) \<Rightarrow> tb - ta \<le> 0
      | _ \<Rightarrow> True)"

fun insert_message :: "UnifiedMessage \<Rightarrow> UnifiedMessage list \<Rightarrow> UnifiedMessage list" where
  "insert_message x [] = [x]"
| "insert_message x (y # ys) = (if comes_first x y then x # y # ys else y # insert_message x ys)"

definition sortMessages :: "UnifiedMessage list \<Rightarrow> UnifiedMessage list" where
  "sortMessages xs = foldr insert_message xs []"



text \<open>\<open>mapWebhookCategory\<close> of the operator dashboard.\<close>

definition mapWebhookCategory :: "string \<Rightarrow> string" where
  "mapWebhookCategory c =
     (let normalizedCategory = trim (toLowerCase (or_default (Some c) ''''))
      in if normalizedCategory \<in> set [''new order'', ''neworder'', ''purchase request'',
                                        ''purchaserequest'', ''order''] then ''new-orders''
         else if normalizedCategory \<in> set [''enquiry'', ''inquiry'', ''question'', ''general'']
           then ''enquiries''
         else if normalizedCategory \<in> set [''follow up'', ''followup'', ''follow-up'']
           then ''follow-ups''
         else if normalizedCategory \<in> set [''complaint'', ''complaints'', ''issue'']
           then ''complaints''
         else if normalizedCategory \<in> set [''return'', ''returns'', ''return request'', ''refund'']
           then ''returns''
         else ''enquiries'')"



definition casing_pairs :: "(string \<times> string) list" where
  "casing_pairs =
     [(''phone_number'', ''Phone_number''), (''name'', ''Name''),
      (''customer_name'', ''Customer_name''), (''product'', ''Product''),
      (''category'', ''Category''), (''intent'', ''Intent''), (''message'', ''Message''),
      (''message_body'', ''Message_body''), (''sender'', ''Sender''), (''type'', ''Type'')]"

definition legacy_only :: "RawDoc \<Rightarrow> bool" where
  "legacy_only doc = list_all (\<lambda>(modern, legacy). str doc modern = None) casing_pairs"

definition modernised :: "RawDoc \<Rightarrow> RawDoc" where
  "modernised doc =
     doc\<lparr>str := (\<lambda>k. case map_of casing_pairs k of
                       Some legacy \<Rightarrow> str doc legacy
                     | None \<Rightarrow> if k \<in> snd ` set casing_pairs then None else str doc k)\<rparr>"


section \<open>Presence subscriptions: the caller and the reachable states\<close>





text \<open>
  What can happen to the service as far as presence is concerned: \<open>subscribeToPresence\<close> is
  called; the store delivers a snapshot to a listener; a function returned by a subscribe
  method is called; \<open>cleanup\<close> is called; time passes; the run time runs a timeout.  The
  other subscribe methods use cache keys that begin with \<open>conversations_\<close> or \<open>messages_\<close>
  and listener keys that begin with \<open>conv_listener_\<close> or \<open>msg_listener_\<close>, so they touch
  no entry that \<open>subscribeToPresence\<close> reads; they have no event here.
\<close>

datatype 'c service_event =
    SubscribePresence "string list" 'c
  | PresenceSnapshot nat "PresenceDoc list"
  | CallUnsubscribe unsubscribe_fn
  | CleanupService
  | TimePasses nat
  | TimeoutRuns nat

fun service_step ::
  "'c service_event \<Rightarrow> ('c presence_listener, presence_map) service \<Rightarrow>
   ('c presence_listener, presence_map) service" where
  "service_step (SubscribePresence userIds callback) s = snd (snd (subscribeToPresence userIds callback s))"
| "service_step (PresenceSnapshot h collection) s = snd (presenceSnapshot h collection s)"
| "service_step (CallUnsubscribe u) s = call_unsubscribe u s"
| "service_step CleanupService s = cleanup_service s"
| "service_step (TimePasses d) s = s\<lparr>clock := clock s + int d\<rparr>"
| "service_step (TimeoutRuns t) s = runTimeout t s"

definition service_run ::
  "'c service_event list \<Rightarrow> ('c presence_listener, presence_map) service \<Rightarrow>
   ('c presence_listener, presence_map) service" where
  "service_run es s = fold service_step es s"







text \<open>
  Two lists of user identifiers, some with \<open>_\<close>, whose first 20 entries, sorted and joined
  with \<open>_\<close>, give the same string; the second list has the user \<open>a\<close> at position 21 only.
\<close>

definition first_watch_list :: "string list" where
  "first_watch_list =
     [''a'', ''b'', ''c_d'', ''e'', ''f'', ''g'', ''h'', ''i'', ''j'', ''k'', ''l'', ''m'', ''n'', ''o'',
      ''p'', ''q'', ''r'', ''s'', ''t'', ''u'']"

definition second_watch_list :: "string list" where
  "second_watch_list =
     [''a_b'', ''c'', ''d'', ''e'', ''f'', ''g'', ''h'', ''i'', ''j'', ''k'', ''l'', ''m'', ''n'', ''o'',
      ''p'', ''q'', ''r'', ''s'', ''t'', ''u'', ''a'']"


section \<open>The expiring cache: time to live\<close>

text \<open>
  Claim C5, as the code has it: an entry set at time \<open>s\<close> with time to live \<open>t\<close> is
  returned unchanged, and the cache is left as it is, by every read at a time up to and
  including \<open>s + t\<close>; every read at a time after \<open>s + t\<close> reports it absent and deletes
  it, leaving the other keys alone.
\<close>

theorem cache_ttl_boundary:
  "(now \<le> s + t \<longrightarrow>
      getCachedData now k (setCachedData s k v t c) = (Some v, setCachedData s k v t c)) \<and>
   (now > s + t \<longrightarrow>
      fst (getCachedData now k (setCachedData s k v t c)) = None \<and>
      snd (getCachedData now k (setCachedData s k v t c)) k = None \<and>
      (\<forall>k'. k' \<noteq> k \<longrightarrow> snd (getCachedData now k (setCachedData s k v t c)) k' = c k'))"
  by (simp add: getCachedData_def setCachedData_def)

theorem cache_ttl_boundary_witness:
  "getCachedData 29999 ''conversations_all_25'' (setCachedData 0 ''conversations_all_25'' (7::nat) 30000 Map.empty)
     = (Some 7, setCachedData 0 ''conversations_all_25'' 7 30000 Map.empty) \<and>
   fst (getCachedData 30001 ''conversations_all_25''
          (setCachedData 0 ''conversations_all_25'' (7::nat) 30000 Map.empty)) = None"
  using cache_ttl_boundary [of 29999 0 30000 "''conversations_all_25''" "7::nat" Map.empty]
        cache_ttl_boundary [of 30001 0 30000 "''conversations_all_25''" "7::nat" Map.empty]
  by simp

text \<open>
  The claim as stated puts the expiry at \<open>s + t\<close> itself.  A read at exactly \<open>s + t\<close>
  (here \<open>0 + 30000\<close>) still returns the value and keeps the entry.
\<close>

theorem cache_ttl_counterexample:
  "fst (getCachedData (0 + 30000) ''k'' (setCachedData 0 ''k'' (7::nat) 30000 Map.empty)) = Some 7 \<and>
   snd (getCachedData (0 + 30000) ''k'' (setCachedData 0 ''k'' (7::nat) 30000 Map.empty)) ''k'' \<noteq> None"
  by (simp add: getCachedData_def setCachedData_def)


section \<open>The usage meter\<close>

text \<open>
  Claim C7: \<open>checkRateLimit\<close> answers \<open>False\<close> exactly when the reads counter it has just
  read exceeds 500.  Inside a window (fewer than 24 hours since \<open>lastReset\<close>) that counter
  is the stored one, so the answer is \<open>True\<close> for every count up to and including 500 and
  \<open>False\<close> from 501 on; above 400 and up to 500 it warns and still answers \<open>True\<close>.
\<close>

theorem checkRateLimit_flips_at_ceiling:
  "fst (checkRateLimit now u) = (reads (getUsageStats now u) \<le> 500) \<and>
   (now - lastReset u < 24 * 3600000 \<longrightarrow> fst (checkRateLimit now u) = (reads u \<le> 500)) \<and>
   (now - lastReset u < 24 * 3600000 \<and> 400 < reads u \<and> reads u \<le> 500 \<longrightarrow>
      fst (checkRateLimit now u) \<and> fst (snd (checkRateLimit now u)) = [ApproachingReadLimit])"
  by (auto simp: checkRateLimit_def getUsageStats_def maxReadsPerDay_def Let_def)

theorem checkRateLimit_flips_at_ceiling_witness:
  "fst (checkRateLimit 1000 \<lparr>reads = 500, writes = 0, lastReset = 0\<rparr>) \<and>
   \<not> fst (checkRateLimit 1000 \<lparr>reads = 501, writes = 0, lastReset = 0\<rparr>) \<and>
   fst (snd (checkRateLimit 1000 \<lparr>reads = 401, writes = 0, lastReset = 0\<rparr>)) = [ApproachingReadLimit]"
  using checkRateLimit_flips_at_ceiling [of 1000 "\<lparr>reads = 500, writes = 0, lastReset = 0\<rparr>"]
        checkRateLimit_flips_at_ceiling [of 1000 "\<lparr>reads = 501, writes = 0, lastReset = 0\<rparr>"]
        checkRateLimit_flips_at_ceiling [of 1000 "\<lparr>reads = 401, writes = 0, lastReset = 0\<rparr>"]
  by (simp add: getUsageStats_def)

text \<open>
  Claim C8: once 24 hours have passed since \<open>lastReset\<close>, \<open>getUsageStats\<close> (and
  \<open>checkRateLimit\<close>, which calls it) leaves and returns both counters at 0 and \<open>lastReset\<close>
  at the current time, whatever the counters were.  Before that it changes nothing.  The
  reset happens nowhere else: the two increment operations keep \<open>lastReset\<close> and never
  lower a counter, and nothing that happens to the coalescer, a timeout running included,
  touches the statistics.
\<close>

theorem getUsageStats_lazy_reset:
  "(now - lastReset u \<ge> 24 * 3600000 \<longrightarrow>
      getUsageStats now u = \<lparr>reads = 0, writes = 0, lastReset = now\<rparr> \<and>
      snd (snd (checkRateLimit now u)) = \<lparr>reads = 0, writes = 0, lastReset = now\<rparr>) \<and>
   (now - lastReset u < 24 * 3600000 \<longrightarrow> getUsageStats now u = u) \<and>
   lastReset (incrementReads n u) = lastReset u \<and>
   lastReset (incrementWrites n u) = lastReset u \<and>
   (0 \<le> n \<longrightarrow> reads u \<le> reads (incrementReads n u) \<and> writes (incrementReads n u) = writes u) \<and>
   (0 \<le> n \<longrightarrow> writes u \<le> writes (incrementWrites n u) \<and> reads (incrementWrites n u) = reads u) \<and>
   usageStats (step e (sv :: ('f, 'v) service)) = usageStats sv"
proof -
  have "usageStats (step e sv) = usageStats sv"
    by (cases e)
       (auto simp: setupDebouncedListener_def clearTimeout_def unsubscribe_def Let_def
          cancelListener_def cleanup_def runTimeout_def split: option.splits)
  then show ?thesis
    by (simp add: getUsageStats_def checkRateLimit_def incrementReads_def incrementWrites_def
        maxReadsPerDay_def Let_def)
qed

theorem getUsageStats_lazy_reset_witness:
  "getUsageStats 86400000 \<lparr>reads = 100000, writes = 70000, lastReset = 0\<rparr>
     = \<lparr>reads = 0, writes = 0, lastReset = 86400000\<rparr> \<and>
   getUsageStats 86399999 \<lparr>reads = 100000, writes = 70000, lastReset = 0\<rparr>
     = \<lparr>reads = 100000, writes = 70000, lastReset = 0\<rparr> \<and>
   reads (incrementReads 3 \<lparr>reads = 100000, writes = 70000, lastReset = 0\<rparr>) = 100003"
  using getUsageStats_lazy_reset [where now = 86400000 and n = 3
          and u = "\<lparr>reads = 100000, writes = 70000, lastReset = 0\<rparr>"
          and e = "Expire 1" and sv = "new_service 0 :: (unit, unit) service"]
        getUsageStats_lazy_reset [where now = 86399999 and n = 3
          and u = "\<lparr>reads = 100000, writes = 70000, lastReset = 0\<rparr>"
          and e = "Expire 1" and sv = "new_service 0 :: (unit, unit) service"]
  by (simp add: incrementReads_def)

section \<open>The subscription coalescer\<close>

subsection \<open>What the maps say is what exists\<close>

text \<open>
  In every state the service can reach: scheduled timeouts and live listeners have distinct
  identifiers, each is the one its key is registered under, a key with a scheduled timeout
  has no live listener, and every identifier in use is below the counter.
\<close>

lemma coalesced_init: "coalesced (init now)"
  by (simp add: coalesced_def init_def)

lemma coalesced_setup: 
  assumes "coalesced s" shows "coalesced (setupDebouncedListener k f d s)"
  using assms unfolding coalesced_def setupDebouncedListener_def clearTimeout_def unsubscribe_def Let_def
  by (auto simp: distinct_map_filter less_Suc_eq split: option.splits)

lemma coalesced_cancel:
  assumes "coalesced s" shows "coalesced (cancelListener k s)"
  using assms unfolding coalesced_def cancelListener_def clearTimeout_def unsubscribe_def Let_def
  by (auto simp: distinct_map_filter split: option.splits)

lemma coalesced_cleanup:
  assumes "coalesced s" shows "coalesced (cleanup s)"
  using assms unfolding coalesced_def cleanup_def
  by (auto simp: distinct_map_filter ran_def)

lemma find_timer:
  "find (\<lambda>x. timer x = t) xs = Some x \<Longrightarrow> x \<in> set xs \<and> timer x = t"
  by (induction xs) (auto split: if_splits)

lemma coalesced_runTimeout:
  assumes "coalesced s" shows "coalesced (runTimeout t s)"
proof (cases "find (\<lambda>x. timer x = t) (timeouts s)")
  case None
  then show ?thesis using assms by (simp add: runTimeout_def)
next
  case (Some x)
  then have x: "x \<in> set (timeouts s)" "timer x = t" using find_timer by fastforce+
  show ?thesis
  proof (cases "clock s < due x")
    case True
    then show ?thesis using assms Some by (simp add: runTimeout_def)
  next
    case False
    have same: "\<And>y. y \<in> set (timeouts s) \<Longrightarrow> t_key y = t_key x \<Longrightarrow> timer y = t"
      using assms x unfolding coalesced_def by (metis option.inject)
    have nolive: "\<And>l. l \<in> set (listeners s) \<Longrightarrow> l_key l \<noteq> t_key x"
      using assms x unfolding coalesced_def by metis
    show ?thesis
      using assms x same nolive False Some
      unfolding coalesced_def runTimeout_def clearTimeout_def Let_def
      by (auto simp: distinct_map_filter less_Suc_eq)
  qed
qed

lemma coalesced_step: "coalesced s \<Longrightarrow> coalesced (step e s)"
  by (cases e) (simp_all add: coalesced_setup coalesced_cancel coalesced_cleanup coalesced_runTimeout, simp add: coalesced_def)

lemma coalesced_run: "coalesced s \<Longrightarrow> coalesced (run es s)"
  unfolding run_def by (induction es arbitrary: s) (simp_all add: coalesced_step)

lemma length_le_one:
  assumes "distinct (map f xs)" "\<And>x y. x \<in> set xs \<Longrightarrow> y \<in> set xs \<Longrightarrow> f x = f y"
  shows "length xs \<le> 1"
proof (cases xs)
  case Nil
  then show ?thesis by simp
next
  case (Cons a ys)
  show ?thesis
  proof (cases ys)
    case Nil
    then show ?thesis using Cons by simp
  next
    case (Cons b zs)
    have "f a = f b" using assms(2) [of a b] \<open>xs = a # ys\<close> Cons by simp
    then show ?thesis using assms(1) \<open>xs = a # ys\<close> Cons by simp
  qed
qed

lemma at_most_one_timeout:
  assumes "coalesced s" shows "length (pending_for k s) \<le> 1"
proof -
  have d: "distinct (map timer (pending_for k s))"
    using assms by (simp add: coalesced_def pending_for_def distinct_map_filter)
  have reg: "\<And>x. x \<in> set (pending_for k s) \<Longrightarrow> debounceTimers s k = Some (timer x)"
    using assms by (auto simp: coalesced_def pending_for_def)
  have "timer x = timer y" if "x \<in> set (pending_for k s)" "y \<in> set (pending_for k s)" for x y
    using reg [OF that(1)] reg [OF that(2)] by simp
  then show ?thesis using d by (rule length_le_one[rotated])
qed

lemma at_most_one_listener:
  assumes "coalesced s" shows "length (live_for k s) \<le> 1"
proof -
  have d: "distinct (map handle (live_for k s))"
    using assms by (simp add: coalesced_def live_for_def distinct_map_filter)
  have reg: "\<And>x. x \<in> set (live_for k s) \<Longrightarrow> activeListeners s k = Some (handle x)"
    using assms by (auto simp: coalesced_def live_for_def)
  have "handle x = handle y" if "x \<in> set (live_for k s)" "y \<in> set (live_for k s)" for x y
    using reg [OF that(1)] reg [OF that(2)] by simp
  then show ?thesis using d by (rule length_le_one[rotated])
qed

lemma elapsed_nonneg: "0 \<le> elapsed es"
  by (induction es rule: elapsed.induct) auto

lemma clock_step: "clock (step e s) = clock s + elapsed [e]"
  by (cases e)
     (auto simp: setupDebouncedListener_def clearTimeout_def unsubscribe_def Let_def
        cancelListener_def cleanup_def runTimeout_def split: option.splits)

lemma elapsed_Cons: "elapsed (e # es) = elapsed [e] + elapsed es"
  by (cases e) auto

lemma waiting_step:
  assumes "waiting t d k s" "clock s < d"
  shows "waiting t d k (step e s)"
proof (cases e)
  case (Expire t')
  show ?thesis
  proof (cases "find (\<lambda>x. timer x = t') (timeouts s)")
    case None
    then show ?thesis using assms Expire by (simp add: runTimeout_def)
  next
    case (Some x)
    then have x: "x \<in> set (timeouts s)" "timer x = t'" using find_timer by fastforce+
    show ?thesis
    proof (cases "t' = t")
      case True
      then have "clock s < due x" using assms x by (simp add: waiting_def)
      then show ?thesis using assms Expire Some by (simp add: runTimeout_def)
    next
      case False
      then show ?thesis using assms Expire Some
        by (auto simp: runTimeout_def waiting_def clearTimeout_def Let_def less_Suc_eq)
    qed
  qed
qed (use assms in \<open>auto simp: waiting_def setupDebouncedListener_def clearTimeout_def unsubscribe_def
      Let_def cancelListener_def cleanup_def less_Suc_eq split: option.splits\<close>)

lemma waiting_run:
  "waiting t d k s \<Longrightarrow> clock s + elapsed es < d \<Longrightarrow> waiting t d k (run es s)"
proof (induction es arbitrary: s)
  case Nil
  then show ?case by (simp add: run_def)
next
  case (Cons e es)
  have e0: "0 \<le> elapsed es" "0 \<le> elapsed [e]" by (rule elapsed_nonneg)+
  have split: "elapsed (e # es) = elapsed [e] + elapsed es" by (rule elapsed_Cons)
  have "clock s < d" using Cons.prems(2) e0 split by linarith
  then have w: "waiting t d k (step e s)" using Cons.prems(1) by (rule waiting_step[rotated])
  have "clock (step e s) + elapsed es < d"
    using Cons.prems(2) split by (simp add: clock_step)
  then have "waiting t d k (run es (step e s))" using Cons.IH w by blast
  then show ?case by (simp add: run_def)
qed

lemma dead_step: "dead t s \<Longrightarrow> dead t (step e s)"
proof (cases e)
  case (Expire t')
  assume a: "dead t s"
  show ?thesis
  proof (cases "find (\<lambda>x. timer x = t') (timeouts s)")
    case None
    then show ?thesis using a Expire by (simp add: runTimeout_def)
  next
    case (Some x)
    then have x: "x \<in> set (timeouts s)" "timer x = t'" using find_timer by fastforce+
    then have "t' \<noteq> t" using a by (auto simp: dead_def)
    then show ?thesis using a Expire Some
      by (auto simp: runTimeout_def dead_def clearTimeout_def Let_def less_Suc_eq)
  qed
qed (auto simp: dead_def setupDebouncedListener_def clearTimeout_def unsubscribe_def
      Let_def cancelListener_def cleanup_def less_Suc_eq split: option.splits)

lemma dead_run: "dead t s \<Longrightarrow> dead t (run es s)"
  unfolding run_def by (induction es arbitrary: s) (simp_all add: dead_step)

lemma find_append_last:
  "(\<And>x. x \<in> set xs \<Longrightarrow> \<not> P x) \<Longrightarrow> P y \<Longrightarrow> find P (xs @ [y]) = Some y"
  by (induction xs) auto

lemma setup_timeouts:
  "timeouts (setupDebouncedListener k f d s) =
     filter (\<lambda>x. Some (timer x) \<noteq> debounceTimers s k) (timeouts s) @
       [\<lparr>timer = fresh s, t_key = k, listenerFn = f, due = clock s + int d\<rparr>]"
  by (auto simp: setupDebouncedListener_def clearTimeout_def unsubscribe_def Let_def
      split: option.splits)

lemma setup_listeners:
  "listeners (setupDebouncedListener k f d s) =
     filter (\<lambda>l. Some (handle l) \<noteq> activeListeners s k) (listeners s)"
  by (auto simp: setupDebouncedListener_def clearTimeout_def unsubscribe_def Let_def
      split: option.splits)

lemma setup_fields:
  "fresh (setupDebouncedListener k f d s) = Suc (fresh s)"
  "clock (setupDebouncedListener k f d s) = clock s"
  "invocations (setupDebouncedListener k f d s) = invocations s"
  by (auto simp: setupDebouncedListener_def clearTimeout_def unsubscribe_def Let_def
      split: option.splits)

lemma setup_pending:
  assumes "coalesced s"
  shows "pending_for k (setupDebouncedListener k f d s) =
           [\<lparr>timer = fresh s, t_key = k, listenerFn = f, due = clock s + int d\<rparr>]"
proof -
  have "filter (\<lambda>x. t_key x = k) (filter (\<lambda>x. Some (timer x) \<noteq> debounceTimers s k) (timeouts s)) = []"
    using assms by (auto simp: filter_empty_conv coalesced_def)
  then show ?thesis by (simp add: pending_for_def setup_timeouts)
qed

lemma setup_live:
  assumes "coalesced s"
  shows "live_for k (setupDebouncedListener k f d s) = []"
  using assms by (auto simp: live_for_def setup_listeners filter_empty_conv coalesced_def)

lemma expire_new:
  fixes s :: "('f, 'z) coalescer_scheme" and k f d
  assumes "coalesced s"
  defines "s3 \<equiv> setupDebouncedListener k f d s"
  shows "live_for k (run [Elapse d, Expire (fresh s)] s3) =
           [\<lparr>handle = Suc (fresh s), l_key = k, factory = f, armed_by = fresh s\<rparr>]"
    and "pending_for k (run [Elapse d, Expire (fresh s)] s3) = []"
    and "activeListeners (run [Elapse d, Expire (fresh s)] s3) k = Some (Suc (fresh s))"
    and "invocations (run [Elapse d, Expire (fresh s)] s3) = invocations s @ [(fresh s, f)]"
proof -
  let ?new = "\<lparr>timer = fresh s, t_key = k, listenerFn = f, due = clock s + int d\<rparr>"
  let ?old = "filter (\<lambda>x. Some (timer x) \<noteq> debounceTimers s k) (timeouts s)"
  let ?s4 = "s3\<lparr>clock := clock s3 + int d\<rparr>"
  have old: "\<And>x. x \<in> set ?old \<Longrightarrow> timer x \<noteq> fresh s"
    using assms(1) by (auto simp: coalesced_def)
  have "find (\<lambda>x. timer x = fresh s) (?old @ [?new]) = Some ?new"
    by (rule find_append_last) (use old in auto)
  then have f: "find (\<lambda>x. timer x = fresh s) (timeouts ?s4) = Some ?new"
    by (simp add: s3_def setup_timeouts)
  have oldk: "filter (\<lambda>x. t_key x = k) ?old = []"
    using assms(1) by (auto simp: filter_empty_conv coalesced_def)
  have live0: "live_for k s3 = []" unfolding s3_def using assms(1) by (rule setup_live)
  have r: "run [Elapse d, Expire (fresh s)] s3 = runTimeout (fresh s) ?s4"
    by (simp add: run_def)
  show "live_for k (run [Elapse d, Expire (fresh s)] s3) =
           [\<lparr>handle = Suc (fresh s), l_key = k, factory = f, armed_by = fresh s\<rparr>]"
    using live0 f unfolding r
    by (simp add: runTimeout_def clearTimeout_def Let_def live_for_def s3_def setup_fields)
  show "pending_for k (run [Elapse d, Expire (fresh s)] s3) = []"
    using f oldk unfolding r
    by (auto simp: runTimeout_def clearTimeout_def Let_def pending_for_def s3_def setup_fields
        setup_timeouts filter_empty_conv)
  show "activeListeners (run [Elapse d, Expire (fresh s)] s3) k = Some (Suc (fresh s))"
    using f unfolding r
    by (simp add: runTimeout_def clearTimeout_def Let_def s3_def setup_fields)
  show "invocations (run [Elapse d, Expire (fresh s)] s3) = invocations s @ [(fresh s, f)]"
    using f unfolding r
    by (simp add: runTimeout_def clearTimeout_def Let_def s3_def setup_fields)
qed

lemma setup_waiting:
  assumes "coalesced s"
  shows "waiting (fresh s) (clock s + int d) k (setupDebouncedListener k f d s)"
  using assms
  by (auto simp: waiting_def coalesced_def setup_fields setup_timeouts)


text \<open>
  Claim C1.  From any state the service can reach, let \<open>setupDebouncedListener\<close> be
  called for key \<open>k\<close> with factory \<open>f1\<close>, then anything happen for less than \<open>f1\<close>'s
  delay, then \<open>setupDebouncedListener\<close> be called for \<open>k\<close> with \<open>f2\<close>.  Then the timeout
  scheduled for \<open>f1\<close> never runs its factory, whatever happens later; the only timeout
  scheduled for \<open>k\<close> is the one for \<open>f2\<close>, and no listener for \<open>k\<close> is live; once
  \<open>f2\<close>'s delay has passed and its timeout has run, exactly one listener is live for \<open>k\<close>,
  made by \<open>f2\<close> and registered in \<open>activeListeners\<close>, and no timeout is scheduled for \<open>k\<close>.
  At every instant, before and after these calls, each key has at most one scheduled
  timeout and at most one live listener.
\<close>

theorem coalescer_supersede:
  fixes s0 :: "'f coalescer"
  assumes "s0 = run es0 (init now)"
    and "s1 = setupDebouncedListener k f1 d1 s0"
    and "s2 = run es s1" and "elapsed es < int d1"
    and "s3 = setupDebouncedListener k f2 d2 s2"
    and "s4 = run [Elapse d2, Expire (fresh s2)] s3"
  shows "pending_for k s1 = [\<lparr>timer = fresh s0, t_key = k, listenerFn = f1, due = clock s0 + int d1\<rparr>] \<and>
         (\<forall>es'. fresh s0 \<notin> fst ` set (invocations (run es' s3))) \<and>
         pending_for k s3 = [\<lparr>timer = fresh s2, t_key = k, listenerFn = f2, due = clock s2 + int d2\<rparr>] \<and>
         live_for k s3 = [] \<and>
         pending_for k s4 = [] \<and>
         live_for k s4 = [\<lparr>handle = Suc (fresh s2), l_key = k, factory = f2, armed_by = fresh s2\<rparr>] \<and>
         activeListeners s4 k = Some (Suc (fresh s2)) \<and>
         invocations s4 = invocations s2 @ [(fresh s2, f2)] \<and>
         (\<forall>es' k'. length (pending_for k' (run es' s1)) \<le> 1 \<and> length (live_for k' (run es' s1)) \<le> 1) \<and>
         (\<forall>es' k'. length (pending_for k' (run es' (init now :: 'f coalescer))) \<le> 1 \<and>
                   length (live_for k' (run es' (init now :: 'f coalescer))) \<le> 1)"
proof -
  have c0: "coalesced s0" using assms(1) by (simp add: coalesced_run coalesced_init)
  have c1: "coalesced s1" using c0 assms(2) by (simp add: coalesced_setup)
  have c2: "coalesced s2" using c1 assms(3) by (simp add: coalesced_run)
  have w1: "waiting (fresh s0) (clock s0 + int d1) k s1"
    unfolding assms(2) using c0 by (rule setup_waiting)
  have "clock s1 + elapsed es < clock s0 + int d1"
    using assms(4) by (simp add: assms(2) setup_fields)
  then have w2: "waiting (fresh s0) (clock s0 + int d1) k s2"
    unfolding assms(3) using w1 by (rule waiting_run[rotated])
  have "dead (fresh s0) s3"
  proof -
    have reg: "debounceTimers s2 k = Some (timer x)"
      if "x \<in> set (timeouts s2)" "timer x = fresh s0" for x
    proof -
      have "t_key x = k" using w2 that by (simp add: waiting_def)
      then show ?thesis using c2 that(1) by (auto simp: coalesced_def)
    qed
    have lt: "fresh s0 < fresh s2" and ni: "fresh s0 \<notin> fst ` set (invocations s2)"
      using w2 by (simp_all add: waiting_def)
    have "fresh s0 \<notin> timer ` set (timeouts s3)"
    proof
      assume "fresh s0 \<in> timer ` set (timeouts s3)"
      then obtain x where x: "x \<in> set (timeouts s3)" "timer x = fresh s0" by auto
      then have "x \<in> set (timeouts s2)" and "Some (timer x) \<noteq> debounceTimers s2 k"
        using lt by (auto simp: assms(5) setup_timeouts)
      then show False using reg [of x] x(2) by simp
    qed
    then show ?thesis using lt ni
      by (simp add: dead_def assms(5) setup_fields)
  qed
  then have never: "\<forall>es'. fresh s0 \<notin> fst ` set (invocations (run es' s3))"
    using dead_run by (auto simp: dead_def)
  have bound: "\<forall>es' k'. length (pending_for k' (run es' s1)) \<le> 1 \<and> length (live_for k' (run es' s1)) \<le> 1"
    using c1 at_most_one_timeout at_most_one_listener coalesced_run by blast
  have bound0: "\<forall>es' k'. length (pending_for k' (run es' (init now :: 'f coalescer))) \<le> 1 \<and>
                   length (live_for k' (run es' (init now :: 'f coalescer))) \<le> 1"
    using coalesced_init at_most_one_timeout at_most_one_listener coalesced_run by blast
  show ?thesis
    using never bound bound0
      setup_pending [OF c0, where k = k and f = f1 and d = d1]
      setup_pending [OF c2, where k = k and f = f2 and d = d2]
      setup_live [OF c2, where k = k and f = f2 and d = d2]
      expire_new [OF c2, where k = k and f = f2 and d = d2]
    by (simp add: assms(2,5,6))
qed

theorem coalescer_supersede_witness:
  "pending_for ''msg_listener_c1''
     (run [Elapse 1000, Expire 2]
        (setupDebouncedListener ''msg_listener_c1'' ''f2'' 1000
           (run [Elapse 999, Expire 1]
              (setupDebouncedListener ''msg_listener_c1'' ''f1'' 1000 (run [] (init 0)))))) = [] \<and>
   invocations
     (run [Elapse 1000, Expire 2]
        (setupDebouncedListener ''msg_listener_c1'' ''f2'' 1000
           (run [Elapse 999, Expire 1]
              (setupDebouncedListener ''msg_listener_c1'' ''f1'' 1000 (run [] (init 0)))))) = [(2, ''f2'')]"
proof -
  have e: "elapsed [Elapse 999, Expire 1 :: string event] < int 1000" by simp
  have f2: "fresh (run [Elapse 999, Expire 1]
              (setupDebouncedListener ''msg_listener_c1'' ''f1'' 1000 (run [] (init 0)))) = 2"
    by (simp add: run_def init_def setupDebouncedListener_def runTimeout_def Let_def)
  have i2: "invocations (run [Elapse 999, Expire 1]
              (setupDebouncedListener ''msg_listener_c1'' ''f1'' 1000 (run [] (init 0)))) = []"
    by (simp add: run_def init_def setupDebouncedListener_def runTimeout_def Let_def)
  show ?thesis
    using coalescer_supersede [where ?es0.0 = "[]" and now = 0 and k = "''msg_listener_c1''"
        and ?f1.0 = "''f1''" and ?d1.0 = 1000 and es = "[Elapse 999, Expire 1]"
        and ?f2.0 = "''f2''" and ?d2.0 = 1000, OF refl refl refl e refl refl] f2 i2
    by simp
qed

section \<open>Sending a message\<close>

text \<open>
  Claim C4, as the code has it: the hook's \<open>sendMessage\<close> does nothing without a
  signed-in user or when the content trims to the empty string; otherwise it hands the
  trimmed content to the service, which commits the batch (the message appended and the
  conversation updated together) without consulting \<open>checkRateLimit\<close>.  The result is
  the same whatever the usage statistics \<open>u\<close> are, so a reads counter above the ceiling
  does not stop the write.
\<close>

theorem hook_sendMessage_unguarded:
  "hook_sendMessage None cid body newId db s = (Skipped, db, s) \<and>
   (trim body = [] \<longrightarrow> hook_sendMessage (Some uid) cid body newId db s = (Skipped, db, s)) \<and>
   (trim body \<noteq> [] \<and> reachable db \<and> conversations db cid = Some c \<longrightarrow>
      hook_sendMessage (Some uid) cid body newId db (s\<lparr>usageStats := u\<rparr>) =
        (Sent \<lparr>cm_id = newId, conversationId = cid, senderId = uid, senderType = Operator,
               content = trim body, messageType = TextMessage, cm_timestamp = clock s,
               cm_status = ''sent'', reactions = [], attachments = []\<rparr>,
         db\<lparr>chat_messages := chat_messages db @
               [\<lparr>cm_id = newId, conversationId = cid, senderId = uid, senderType = Operator,
                 content = trim body, messageType = TextMessage, cm_timestamp = clock s,
                 cm_status = ''sent'', reactions = [], attachments = []\<rparr>],
            conversations := (conversations db)(cid \<mapsto>
               c\<lparr>lastMessageAt := clock s, updatedAt := clock s, unreadCount := 0\<rparr>)\<rparr>,
         s\<lparr>usageStats := getUsageStats (clock s) (incrementWrites 2 u),
           cache := (cache s)(messagesCacheKey cid DEFAULT_MESSAGE_LIMIT := None)\<rparr>))"
  by (simp add: hook_sendMessage_def sendMessage_def batch_commit_def Let_def)

theorem hook_sendMessage_unguarded_witness:
  "fst (hook_sendMessage (Some ''op1'') ''c1'' ''   '' ''m1''
      \<lparr>chat_messages = [],
       conversations = [''c1'' \<mapsto> \<lparr>lastMessageAt = 0, updatedAt = 0, unreadCount = 3\<rparr>],
       reachable = True\<rparr>
      (new_service 1000 :: (unit, unit) service)) = Skipped \<and>
   fst (hook_sendMessage (Some ''op1'') ''c1'' '' hi '' ''m1''
      \<lparr>chat_messages = [],
       conversations = [''c1'' \<mapsto> \<lparr>lastMessageAt = 0, updatedAt = 0, unreadCount = 3\<rparr>],
       reachable = True\<rparr>
      ((new_service 1000 :: (unit, unit) service)
         \<lparr>usageStats := \<lparr>reads = 9999, writes = 0, lastReset = 0\<rparr>\<rparr>)) =
     Sent \<lparr>cm_id = ''m1'', conversationId = ''c1'', senderId = ''op1'', senderType = Operator,
           content = ''hi'', messageType = TextMessage, cm_timestamp = 1000,
           cm_status = ''sent'', reactions = [], attachments = []\<rparr>"
  using hook_sendMessage_unguarded [of "''c1''" "''   ''" "''m1''"
      "\<lparr>chat_messages = [],
        conversations = [''c1'' \<mapsto> \<lparr>lastMessageAt = 0, updatedAt = 0, unreadCount = 3\<rparr>],
        reachable = True\<rparr>" "new_service 1000 :: (unit, unit) service" "''op1''"]
    hook_sendMessage_unguarded [of "''c1''" "'' hi ''" "''m1''"
      "\<lparr>chat_messages = [],
        conversations = [''c1'' \<mapsto> \<lparr>lastMessageAt = 0, updatedAt = 0, unreadCount = 3\<rparr>],
        reachable = True\<rparr>" "new_service 1000 :: (unit, unit) service" "''op1''"
      "\<lparr>lastMessageAt = 0, updatedAt = 0, unreadCount = 3\<rparr>"
      "\<lparr>reads = 9999, writes = 0, lastReset = 0\<rparr>"]
  by (simp add: trim_def isWhiteSpace_def new_service_def)

text \<open>
  The claim as stated has the send skipped when the breaker reports the ceiling exceeded.
  With 501 reads recorded, \<open>checkRateLimit\<close> answers \<open>False\<close>, and the hook's
  \<open>sendMessage\<close> still appends the message and records two writes.
\<close>

theorem hook_sendMessage_counterexample:
  "\<not> fst (checkRateLimit 1000 \<lparr>reads = 501, writes = 0, lastReset = 0\<rparr>) \<and>
   chat_messages (fst (snd (hook_sendMessage (Some ''op1'') ''c1'' ''hello'' ''m1''
      \<lparr>chat_messages = [],
       conversations = [''c1'' \<mapsto> \<lparr>lastMessageAt = 0, updatedAt = 0, unreadCount = 3\<rparr>],
       reachable = True\<rparr>
      ((new_service 1000 :: (unit, unit) service)
         \<lparr>usageStats := \<lparr>reads = 501, writes = 0, lastReset = 0\<rparr>\<rparr>)))) =
     [\<lparr>cm_id = ''m1'', conversationId = ''c1'', senderId = ''op1'', senderType = Operator,
       content = ''hello'', messageType = TextMessage, cm_timestamp = 1000,
       cm_status = ''sent'', reactions = [], attachments = []\<rparr>] \<and>
   usageStats (snd (snd (hook_sendMessage (Some ''op1'') ''c1'' ''hello'' ''m1''
      \<lparr>chat_messages = [],
       conversations = [''c1'' \<mapsto> \<lparr>lastMessageAt = 0, updatedAt = 0, unreadCount = 3\<rparr>],
       reachable = True\<rparr>
      ((new_service 1000 :: (unit, unit) service)
         \<lparr>usageStats := \<lparr>reads = 501, writes = 0, lastReset = 0\<rparr>\<rparr>)))) =
     \<lparr>reads = 501, writes = 2, lastReset = 0\<rparr>"
  by (simp add: hook_sendMessage_def sendMessage_def batch_commit_def Let_def new_service_def
      checkRateLimit_def getUsageStats_def maxReadsPerDay_def incrementWrites_def
      trim_def isWhiteSpace_def)

lemma messagesCacheKey_100: "messagesCacheKey ''c1'' 100 = ''messages_c1_100''"
  by (simp add: messagesCacheKey_def string_of_nat.simps char_of_def bit_0)

lemma messagesCacheKey_default: "messagesCacheKey ''c1'' DEFAULT_MESSAGE_LIMIT = ''messages_c1_50''"
  by (simp add: messagesCacheKey_def string_of_nat.simps char_of_def bit_0 DEFAULT_MESSAGE_LIMIT_def)

text \<open>
  Claim C6 at the input where the code departs from it.  The hook subscribes to the
  messages of the active conversation with a limit of 100, so the snapshot handler caches
  them under \<open>messages_c1_100\<close>; \<open>sendMessage\<close> deletes \<open>messages_c1_50\<close> only.  After a
  successful send for \<open>c1\<close> (two writes recorded), the entry under \<open>messages_c1_100\<close> is
  still served by the next cache read.
\<close>

theorem sendMessage_leaves_subscribed_cache:
  "isl (sendMessage ''c1'' ''op1'' Operator ''hello'' TextMessage ''m1''
      \<lparr>chat_messages = [],
       conversations = [''c1'' \<mapsto> \<lparr>lastMessageAt = 0, updatedAt = 0, unreadCount = 3\<rparr>],
       reachable = True\<rparr>
      ((new_service 1000 :: (unit, string list) service)
         \<lparr>cache := setCachedData 1000 (messagesCacheKey ''c1'' 100) [''earlier''] CACHE_DURATION Map.empty\<rparr>))
     = False \<and>
   fst (getCachedData 1001 (messagesCacheKey ''c1'' 100)
     (cache (snd (snd (projr (sendMessage ''c1'' ''op1'' Operator ''hello'' TextMessage ''m1''
      \<lparr>chat_messages = [],
       conversations = [''c1'' \<mapsto> \<lparr>lastMessageAt = 0, updatedAt = 0, unreadCount = 3\<rparr>],
       reachable = True\<rparr>
      ((new_service 1000 :: (unit, string list) service)
         \<lparr>cache := setCachedData 1000 (messagesCacheKey ''c1'' 100) [''earlier''] CACHE_DURATION Map.empty\<rparr>)))))))
     = Some [''earlier''] \<and>
   writes (usageStats (snd (snd (projr (sendMessage ''c1'' ''op1'' Operator ''hello'' TextMessage ''m1''
      \<lparr>chat_messages = [],
       conversations = [''c1'' \<mapsto> \<lparr>lastMessageAt = 0, updatedAt = 0, unreadCount = 3\<rparr>],
       reachable = True\<rparr>
      ((new_service 1000 :: (unit, string list) service)
         \<lparr>cache := setCachedData 1000 (messagesCacheKey ''c1'' 100) [''earlier''] CACHE_DURATION Map.empty\<rparr>)))))) = 2"
  by (simp add: sendMessage_def batch_commit_def Let_def new_service_def messagesCacheKey_100 messagesCacheKey_default
      incrementWrites_def getCachedData_def setCachedData_def CACHE_DURATION_def)

section \<open>The normaliser and the casing of property names\<close>

lemma legacy_only_iff:
  "legacy_only doc \<longleftrightarrow>
     str doc ''phone_number'' = None \<and> str doc ''name'' = None \<and>
     str doc ''customer_name'' = None \<and> str doc ''product'' = None \<and>
     str doc ''category'' = None \<and> str doc ''intent'' = None \<and>
     str doc ''message'' = None \<and> str doc ''message_body'' = None \<and>
     str doc ''sender'' = None \<and> str doc ''type'' = None"
  by (simp add: legacy_only_def casing_pairs_def)

lemma or_default_or_else: "or_default (or_else a b) d = or_default a (or_default b d)"
  by (simp add: or_else_def truthy_def or_default_def split: option.splits)

lemma or_default_None: "or_default None d = d"
  by (simp add: or_default_def)

lemma firebaseToUnified_modernised:
  assumes "legacy_only doc"
  shows "firebaseToUnified parse now index (modernised doc) = firebaseToUnified parse now index doc"
proof -
  have m: "str (modernised doc) ''Phone Number'' = str doc ''Phone Number''"
    "str (modernised doc) ''Profile Name'' = str doc ''Profile Name''"
    "str (modernised doc) ''id'' = str doc ''id''"
    "str (modernised doc) ''phone_number'' = str doc ''Phone_number''"
    "str (modernised doc) ''name'' = str doc ''Name''"
    "str (modernised doc) ''customer_name'' = str doc ''Customer_name''"
    "str (modernised doc) ''product'' = str doc ''Product''"
    "str (modernised doc) ''category'' = str doc ''Category''"
    "str (modernised doc) ''intent'' = str doc ''Intent''"
    "str (modernised doc) ''message'' = str doc ''Message''"
    "str (modernised doc) ''message_body'' = str doc ''Message_body''"
    "str (modernised doc) ''sender'' = str doc ''Sender''"
    "str (modernised doc) ''type'' = str doc ''Type''"
    "str (modernised doc) ''Phone_number'' = None"
    "str (modernised doc) ''Name'' = None"
    "str (modernised doc) ''Customer_name'' = None"
    "str (modernised doc) ''Product'' = None"
    "str (modernised doc) ''Category'' = None"
    "str (modernised doc) ''Intent'' = None"
    "str (modernised doc) ''Message'' = None"
    "str (modernised doc) ''Message_body'' = None"
    "str (modernised doc) ''Sender'' = None"
    "str (modernised doc) ''Type'' = None"
    by (simp_all add: modernised_def casing_pairs_def)
  have s: "stamp (modernised doc) = stamp doc"
    by (simp add: modernised_def)
  have l: "str doc ''phone_number'' = None" "str doc ''name'' = None"
     "str doc ''customer_name'' = None" "str doc ''product'' = None"
     "str doc ''category'' = None" "str doc ''intent'' = None"
     "str doc ''message'' = None" "str doc ''message_body'' = None"
     "str doc ''sender'' = None" "str doc ''type'' = None"
    using assms by (simp_all add: legacy_only_iff)
  show ?thesis
    unfolding firebaseToUnified_def firebaseTimestamp_def m s l or_default_or_else or_default_None
    by (rule refl)
qed

lemma or_default_Some_id: "or_default (Some x) [] = x"
  by (simp add: or_default_def)

lemma mapWebhookCategory_of_normal:
  assumes "trim (toLowerCase c) = n"
  shows "mapWebhookCategory c =
     (if n \<in> set [''new order'', ''neworder'', ''purchase request'', ''purchaserequest'', ''order'']
        then ''new-orders''
      else if n \<in> set [''enquiry'', ''inquiry'', ''question'', ''general''] then ''enquiries''
      else if n \<in> set [''follow up'', ''followup'', ''follow-up''] then ''follow-ups''
      else if n \<in> set [''complaint'', ''complaints'', ''issue''] then ''complaints''
      else if n \<in> set [''return'', ''returns'', ''return request'', ''refund''] then ''returns''
      else ''enquiries'')"
  unfolding mapWebhookCategory_def or_default_Some_id Let_def assms by (rule refl)

lemma mapWebhookCategory_normalised:
  assumes "trim (toLowerCase c) = trim (toLowerCase c')"
  shows "mapWebhookCategory c = mapWebhookCategory c'"
  unfolding mapWebhookCategory_of_normal [OF assms] mapWebhookCategory_of_normal [OF refl, of c']
  by (rule refl)

text \<open>
  Claim C9: a Firebase document that has only the capitalised properties and the same
  document with these renamed to lower case are normalised to the same message (category,
  sender, text and every other field).  The dashboard's category depends only on the
  lower-cased, trimmed category: the synonyms map to their category, and anything outside
  the table is an enquiry.
\<close>

theorem normaliser_casing_invariant:
  "(legacy_only doc \<longrightarrow>
      firebaseToUnified parse now index (modernised doc) = firebaseToUnified parse now index doc \<and>
      mapWebhookCategory (category (firebaseToUnified parse now index (modernised doc))) =
        mapWebhookCategory (category (firebaseToUnified parse now index doc))) \<and>
   (trim (toLowerCase c) = trim (toLowerCase c') \<longrightarrow> mapWebhookCategory c = mapWebhookCategory c') \<and>
   (trim (toLowerCase c) \<in> {''follow up'', ''followup'', ''follow-up''} \<longrightarrow>
      mapWebhookCategory c = ''follow-ups'') \<and>
   (trim (toLowerCase c) \<in> {''new order'', ''neworder'', ''purchase request'', ''purchaserequest'', ''order''} \<longrightarrow>
      mapWebhookCategory c = ''new-orders'') \<and>
   (trim (toLowerCase c) \<in> {''complaint'', ''complaints'', ''issue''} \<longrightarrow>
      mapWebhookCategory c = ''complaints'') \<and>
   (trim (toLowerCase c) \<in> {''return'', ''returns'', ''return request'', ''refund''} \<longrightarrow>
      mapWebhookCategory c = ''returns'') \<and>
   (trim (toLowerCase c) \<notin> {''new order'', ''neworder'', ''purchase request'', ''purchaserequest'', ''order'',
        ''follow up'', ''followup'', ''follow-up'', ''complaint'', ''complaints'', ''issue'',
        ''return'', ''returns'', ''return request'', ''refund''} \<longrightarrow>
      mapWebhookCategory c = ''enquiries'')"
proof (intro conjI impI)
  assume "legacy_only doc"
  then show same: "firebaseToUnified parse now index (modernised doc) = firebaseToUnified parse now index doc"
    by (rule firebaseToUnified_modernised)
  show "mapWebhookCategory (category (firebaseToUnified parse now index (modernised doc))) =
        mapWebhookCategory (category (firebaseToUnified parse now index doc))"
    unfolding same by (rule refl)
next
  assume "trim (toLowerCase c) = trim (toLowerCase c')"
  then show "mapWebhookCategory c = mapWebhookCategory c'"
    by (rule mapWebhookCategory_normalised)
next
  assume "trim (toLowerCase c) \<in> {''follow up'', ''followup'', ''follow-up''}"
  then show "mapWebhookCategory c = ''follow-ups''"
    unfolding mapWebhookCategory_of_normal [OF refl] by auto
next
  assume "trim (toLowerCase c) \<in> {''new order'', ''neworder'', ''purchase request'', ''purchaserequest'', ''order''}"
  then show "mapWebhookCategory c = ''new-orders''"
    unfolding mapWebhookCategory_of_normal [OF refl] by auto
next
  assume "trim (toLowerCase c) \<in> {''complaint'', ''complaints'', ''issue''}"
  then show "mapWebhookCategory c = ''complaints''"
    unfolding mapWebhookCategory_of_normal [OF refl] by auto
next
  assume "trim (toLowerCase c) \<in> {''return'', ''returns'', ''return request'', ''refund''}"
  then show "mapWebhookCategory c = ''returns''"
    unfolding mapWebhookCategory_of_normal [OF refl] by auto
next
  assume "trim (toLowerCase c) \<notin> {''new order'', ''neworder'', ''purchase request'', ''purchaserequest'', ''order'',
        ''follow up'', ''followup'', ''follow-up'', ''complaint'', ''complaints'', ''issue'',
        ''return'', ''returns'', ''return request'', ''refund''}"
  then show "mapWebhookCategory c = ''enquiries''"
    unfolding mapWebhookCategory_of_normal [OF refl] by simp
qed

theorem normaliser_casing_invariant_witness:
  "category (firebaseToUnified (\<lambda>s. None) 0 0
      \<lparr>str = [''Phone_number'' \<mapsto> ''+1'', ''Name'' \<mapsto> ''Ava'', ''Category'' \<mapsto> ''  Follow-Up '',
              ''Message'' \<mapsto> ''Hi'', ''Sender'' \<mapsto> ''Operator''],
       stamp = Map.empty\<rparr>) = ''  Follow-Up '' \<and>
   firebaseToUnified (\<lambda>s. None) 0 0 (modernised
      \<lparr>str = [''Phone_number'' \<mapsto> ''+1'', ''Name'' \<mapsto> ''Ava'', ''Category'' \<mapsto> ''  Follow-Up '',
              ''Message'' \<mapsto> ''Hi'', ''Sender'' \<mapsto> ''Operator''],
       stamp = Map.empty\<rparr>) =
   firebaseToUnified (\<lambda>s. None) 0 0
      \<lparr>str = [''Phone_number'' \<mapsto> ''+1'', ''Name'' \<mapsto> ''Ava'', ''Category'' \<mapsto> ''  Follow-Up '',
              ''Message'' \<mapsto> ''Hi'', ''Sender'' \<mapsto> ''Operator''],
       stamp = Map.empty\<rparr> \<and>
   mapWebhookCategory ''  Follow-Up '' = ''follow-ups'' \<and>
   mapWebhookCategory ''wholesale'' = ''enquiries''"
proof -
  have l: "legacy_only
      \<lparr>str = [''Phone_number'' \<mapsto> ''+1'', ''Name'' \<mapsto> ''Ava'', ''Category'' \<mapsto> ''  Follow-Up '',
              ''Message'' \<mapsto> ''Hi'', ''Sender'' \<mapsto> ''Operator''],
       stamp = Map.empty\<rparr>"
    by (simp add: legacy_only_def casing_pairs_def)
  have n1: "trim (toLowerCase ''  Follow-Up '') = ''follow-up''"
    by (simp add: trim_def toLowerCase_def toLowerCase_char_def isWhiteSpace_def char_of_def bit_0)
  have n2: "trim (toLowerCase ''wholesale'') = ''wholesale''"
    by (simp add: trim_def toLowerCase_def toLowerCase_char_def isWhiteSpace_def char_of_def bit_0)
  have c: "category (firebaseToUnified (\<lambda>s. None) 0 0
      \<lparr>str = [''Phone_number'' \<mapsto> ''+1'', ''Name'' \<mapsto> ''Ava'', ''Category'' \<mapsto> ''  Follow-Up '',
              ''Message'' \<mapsto> ''Hi'', ''Sender'' \<mapsto> ''Operator''],
       stamp = Map.empty\<rparr>) = ''  Follow-Up ''"
    by (simp add: firebaseToUnified_def or_else_def or_default_def truthy_def Let_def)
  show ?thesis
    using l c
      normaliser_casing_invariant [of
        "\<lparr>str = [''Phone_number'' \<mapsto> ''+1'', ''Name'' \<mapsto> ''Ava'', ''Category'' \<mapsto> ''  Follow-Up '',
                ''Message'' \<mapsto> ''Hi'', ''Sender'' \<mapsto> ''Operator''],
          stamp = Map.empty\<rparr>" "\<lambda>s. None" 0 0 "''  Follow-Up ''" "''follow-up''"]
      normaliser_casing_invariant [of
        "\<lparr>str = [''Phone_number'' \<mapsto> ''+1'', ''Name'' \<mapsto> ''Ava'', ''Category'' \<mapsto> ''  Follow-Up '',
                ''Message'' \<mapsto> ''Hi'', ''Sender'' \<mapsto> ''Operator''],
          stamp = Map.empty\<rparr>" "\<lambda>s. None" 0 0 "''wholesale''" "''wholesale''"]
    unfolding n1 n2 by simp
qed


section \<open>The aggregate of the data sources\<close>

subsection \<open>Sorting, and the states the hook reaches\<close>

lemma mset_insert_message: "mset (insert_message x ys) = add_mset x (mset ys)"
  by (induction ys) auto

lemma mset_sortMessages: "mset (sortMessages xs) = mset xs"
  unfolding sortMessages_def by (induction xs) (auto simp: mset_insert_message)


lemma set_sortMessages: "set (sortMessages xs) = set xs"
  using mset_sortMessages [of xs] by (metis set_mset_mset)
















subsection \<open>The window of the aggregate\<close>



subsection \<open>One origin per aggregate\<close>




section \<open>Presence subscriptions\<close>

subsection \<open>The hook passes at most 12 identifiers\<close>






subsection \<open>The cache key determines the identifiers\<close>







subsection \<open>Every reachable state is keyed\<close>


lemma getCachedData_hit:
  "fst (getCachedData now key c) = Some m \<Longrightarrow> \<exists>e. c key = Some e \<and> data e = m"
  by (auto simp: getCachedData_def split: option.splits if_splits)














subsection \<open>What one call delivers and registers\<close>





lemma subscribe_hit:
  assumes "userIds \<noteq> []"
    and "cache s (presenceCacheKey (sort (take MAX_PRESENCE_USERS userIds))) = Some entry"
    and "clock s \<le> expiresAt entry"
  shows "fst (snd (subscribeToPresence userIds callback s)) = [(callback, data entry)]"
proof -
  have "take MAX_PRESENCE_USERS userIds \<noteq> []"
    using assms(1) by (simp add: MAX_PRESENCE_USERS_def)
  then have "sort (take MAX_PRESENCE_USERS userIds) \<noteq> []" by (metis length_sort length_0_conv)
  then show ?thesis
    using assms(2,3) by (simp add: subscribeToPresence_def Let_def split_beta getCachedData_def)
qed

subsection \<open>The first 20 identifiers\<close>



subsection \<open>Identifiers that contain the separator\<close>

text \<open>
  The bound on the list, or the absence of \<open>_\<close> from the identifiers, cannot be dropped
  from the statement above.  A first caller subscribes to the 20 users of
  \<open>first_watch_list\<close>; after the delay its listener is registered, and a snapshot with the
  presence of user \<open>a\<close> is cached under the key built from the sorted identifiers joined
  with \<open>_\<close>.  A second caller then subscribes with the 21 identifiers of
  \<open>second_watch_list\<close>, in which \<open>a\<close> stands at position 21 only.  Its first 20 identifiers
  give the same key, so the cached map is handed to its callback at once, and that map
  contains \<open>a\<close>.  The hook never passes such a list: it passes at most 12 identifiers.
\<close>

lemma first_key:
  "sort (take MAX_PRESENCE_USERS first_watch_list) = first_watch_list \<and>
   presenceCacheKey first_watch_list = ''presence_a_b_c_d_e_f_g_h_i_j_k_l_m_n_o_p_q_r_s_t_u''"
  by (simp add: presenceCacheKey_def first_watch_list_def MAX_PRESENCE_USERS_def)

lemma second_key:
  "presenceCacheKey (sort (take MAX_PRESENCE_USERS second_watch_list)) =
     ''presence_a_b_c_d_e_f_g_h_i_j_k_l_m_n_o_p_q_r_s_t_u''"
  by (simp add: presenceCacheKey_def second_watch_list_def MAX_PRESENCE_USERS_def)

lemma a_late:
  "''a'' \<notin> set (take MAX_PRESENCE_USERS second_watch_list) \<and>
   ''a'' \<in> set (drop MAX_PRESENCE_USERS second_watch_list) \<and>
   ''a'' \<in> set first_watch_list \<and> second_watch_list \<noteq> []"
  by (simp add: second_watch_list_def first_watch_list_def MAX_PRESENCE_USERS_def)

lemma presence_cache_key_collision:
  "''a'' \<notin> set (take MAX_PRESENCE_USERS second_watch_list) \<and>
   ''a'' \<in> set (drop MAX_PRESENCE_USERS second_watch_list) \<and>
   fst (snd (subscribeToPresence second_watch_list (2::nat)
     (service_run
        [SubscribePresence first_watch_list 1, TimePasses 1000, TimeoutRuns 1,
         PresenceSnapshot 2
           [\<lparr>p_userId = ''a'', p_status = ''online'', p_lastSeen = Some 5, p_isTyping = None,
             p_typingInConversation = None\<rparr>]]
        (new_service 0))))
     = [(2, [''a'' \<mapsto> \<lparr>userId = ''a'', status = ''online'', lastSeen = 5, isTyping = False,
                       typingInConversation = None\<rparr>])]"
proof -
  let ?key = "''presence_a_b_c_d_e_f_g_h_i_j_k_l_m_n_o_p_q_r_s_t_u''"
  let ?doc = "\<lparr>p_userId = ''a'', p_status = ''online'', p_lastSeen = Some 5, p_isTyping = None,
             p_typingInConversation = None\<rparr>"
  let ?m = "[''a'' \<mapsto> \<lparr>userId = ''a'', status = ''online'', lastSeen = 5, isTyping = False,
                       typingInConversation = None\<rparr>]"
  let ?s1 = "snd (snd (subscribeToPresence first_watch_list (1::nat) (new_service 0)))"
  have len: "length first_watch_list \<noteq> 0" using a_late by auto
  have s1: "?s1 = setupDebouncedListener (''presence_listener_'' @ ?key)
                    (PresenceListener first_watch_list ?key 1) DEBOUNCE_DELAY (new_service 0)"
    unfolding subscribeToPresence_def Let_def first_key [THEN conjunct1] first_key [THEN conjunct2]
    using len by (simp add: getCachedData_def new_service_def)
  let ?s2 = "runTimeout 1 (?s1\<lparr>clock := clock ?s1 + int 1000\<rparr>)"
  have s2: "listeners ?s2 = [\<lparr>handle = 2, l_key = ''presence_listener_'' @ ?key,
                factory = PresenceListener first_watch_list ?key 1, armed_by = 1\<rparr>]
            \<and> clock ?s2 = 1000 \<and> cache ?s2 = Map.empty"
    unfolding s1
    by (simp add: setupDebouncedListener_def runTimeout_def clearTimeout_def Let_def
        new_service_def DEBOUNCE_DELAY_def)
  let ?s3 = "snd (presenceSnapshot 2 [?doc] ?s2)"
  have run: "service_run [SubscribePresence first_watch_list 1, TimePasses 1000, TimeoutRuns 1,
               PresenceSnapshot 2 [?doc]] (new_service 0) = ?s3"
    by (simp add: service_run_def)
  have s3: "cache ?s3 ?key = Some \<lparr>data = ?m, timestamp = 1000, expiresAt = 31000\<rparr>
            \<and> clock ?s3 = 1000"
    using s2 a_late
    by (simp add: presenceSnapshot_def Let_def setCachedData_def toUserPresence_def
        CACHE_DURATION_def)
  have "fst (snd (subscribeToPresence second_watch_list (2::nat) ?s3)) = [(2, ?m)]"
    using subscribe_hit [where userIds = second_watch_list and s = ?s3 and callback = "2::nat"
        and entry = "\<lparr>data = ?m, timestamp = 1000, expiresAt = 31000\<rparr>"] s3 a_late
    unfolding second_key by simp
  then show ?thesis unfolding run using a_late by simp
qed

end
